theory Spec2Isabelle
  imports Complex_Main "HOL-Library.Word"
begin

section \<open>The simulated SailBot of dotbot/sailbot_simulator.py\<close>

text \<open>
  Python's floats are read as reals and Python's unbounded ints as \<open>int\<close>; a byte
  buffer is a list of 8-bit words. A method that mutates \<open>self\<close> takes the object
  and returns it updated; a method that can raise returns the exception as a value
  next to the object as the raise left it.
\<close>

type_synonym byte = "8 word"

subsection \<open>Module and instance constants\<close>

text \<open>
  \<open>delta_t\<close> is the module constant. The attributes \<open>earth_radius_km\<close>,
  \<open>origin_coord_latitude\<close>, \<open>origin_coord_longitude\<close>, \<open>cos_phi_0\<close> and
  \<open>true_wind_angle\<close> are assigned literals in \<open>__init__\<close> and by no other line of
  the module, so they are constants here rather than fields.
\<close>

definition delta_t :: real where
  "delta_t = 0.5"

definition earth_radius_km :: real where
  "earth_radius_km = 6371"

definition origin_coord_latitude :: real where
  "origin_coord_latitude = 48.825908"

definition origin_coord_longitude :: real where
  "origin_coord_longitude = 2.406433"

definition cos_phi_0 :: real where
  "cos_phi_0 = 0.658139837"

definition true_wind_angle :: int where
  "true_wind_angle = 30"

subsection \<open>Coordinate conversion\<close>

text \<open>
  Every divisor (\<open>math.pi\<close>, \<open>cos_phi_0\<close>, \<open>earth_radius_km\<close>, \<open>0.180\<close>) is a
  non-zero constant, so neither function has a ZeroDivisionError branch.
\<close>

definition convert_cartesian_to_geographical :: "real \<Rightarrow> real \<Rightarrow> real \<times> real" where
  "convert_cartesian_to_geographical x y =
     (let latitude = ((((y * 0.180) / pi) / earth_radius_km) + origin_coord_latitude);
          longitude = ((((x * 0.180) / pi / cos_phi_0) / earth_radius_km) + origin_coord_longitude)
      in (latitude, longitude))"

definition convert_geographical_to_cartesian :: "real \<Rightarrow> real \<Rightarrow> real \<times> real" where
  "convert_geographical_to_cartesian latitude longitude =
     (let x = ((longitude - origin_coord_longitude) * earth_radius_km * cos_phi_0 * pi) / 0.180;
          y = ((latitude - origin_coord_latitude) * earth_radius_km * pi) / 0.180
      in (x, y))"

subsection \<open>Errors and Python builtins\<close>

text \<open>
  \<open>ValueError\<close> is what \<open>int(s, 16)\<close> raises, \<open>AttributeError\<close> what reading a
  missing attribute raises, and \<open>FrameDecodeError\<close> is the spec's name for the error
  with which the frame codec rejects a buffer.
\<close>

datatype error = ValueError | AttributeError | FrameDecodeError

definition hex_digit :: "nat \<Rightarrow> char" where
  "hex_digit d = ''0123456789abcdef'' ! d"

fun hex_digits :: "nat \<Rightarrow> string" where
  "hex_digits n =
     (if n < 16 then [hex_digit n] else hex_digits (n div 16) @ [hex_digit (n mod 16)])"

declare hex_digits.simps [simp del]

text \<open>Python's \<open>hex\<close>: lowercase digits after \<open>0x\<close>, a leading minus sign when negative.\<close>

definition hex :: "int \<Rightarrow> string" where
  "hex i = (if i < 0 then ''-0x'' @ hex_digits (nat (- i)) else ''0x'' @ hex_digits (nat i))"

definition hex_value :: "char \<Rightarrow> nat option" where
  "hex_value c =
     (let k = (of_char c :: nat)
      in if 48 \<le> k \<and> k \<le> 57 then Some (k - 48)
         else if 97 \<le> k \<and> k \<le> 102 then Some (k - 87)
         else if 65 \<le> k \<and> k \<le> 70 then Some (k - 55)
         else None)"

fun int_digits16 :: "nat \<Rightarrow> string \<Rightarrow> nat option" where
  "int_digits16 acc [] = Some acc"
| "int_digits16 acc (c # cs) =
     (case hex_value c of None \<Rightarrow> None | Some d \<Rightarrow> int_digits16 (16 * acc + d) cs)"

text \<open>
  Python's \<open>int(s, 16)\<close> on a string of hexadecimal digits. The sign, the \<open>0x\<close>
  prefix, the underscores and the surrounding whitespace that \<open>int\<close> also accepts
  are not modelled: on such a string the model answers \<open>ValueError\<close>, so the
  properties below rest on \<open>Inr\<close> results only.
\<close>

definition int_base16 :: "string \<Rightarrow> error + int" where
  "int_base16 s =
     (if s = [] then Inl ValueError
      else case int_digits16 0 s of None \<Rightarrow> Inl ValueError | Some n \<Rightarrow> Inr (int n))"

text \<open>Python's \<open>int\<close> of a float truncates towards zero.\<close>

definition int_of_float :: "real \<Rightarrow> int" where
  "int_of_float r = (if r < 0 then \<lceil>r\<rceil> else \<lfloor>r\<rfloor>)"

subsection \<open>The protocol package\<close>

text \<open>
  Modelled from the spec: the classes of \<open>dotbot.protocol\<close> are not part of the
  module. The spec gives the shapes Header{destination, source, swarmId,
  applicationType, protocolVersion}, Advertisement{}, Telemetry{heading, latitude,
  longitude, windAngle} and MoveCommand{leftX, rightY}; the payload types are the three
  the module names, and any other.
\<close>

datatype ApplicationType = DotBot | SailBot

datatype PayloadType = CMD_MOVE_RAW | ADVERTISEMENT | SAILBOT_DATA | OTHER_PAYLOAD nat

record ProtocolHeader =
  destination :: int
  source :: int
  swarm_id :: int
  application :: ApplicationType
  version :: int

datatype ProtocolData =
    CommandMoveRaw int int
  | Advertisement
  | SailBotData int int int int
  | OtherData

record ProtocolPayload =
  header :: ProtocolHeader
  payload_type :: PayloadType
  payload_values :: ProtocolData

text \<open>Reading \<open>values.left_x\<close> and \<open>values.right_y\<close>: only a move command has them.\<close>

fun left_x :: "ProtocolData \<Rightarrow> error + int" where
  "left_x (CommandMoveRaw lx ry) = Inr lx"
| "left_x _ = Inl AttributeError"

fun right_y :: "ProtocolData \<Rightarrow> error + int" where
  "right_y (CommandMoveRaw lx ry) = Inr ry"
| "right_y _ = Inl AttributeError"

text \<open>
  The names the module imports from the \<open>dotbot\<close> package and does not define are
  parameters of the model: the two default addresses, the protocol version, the HDLC
  framing and the payload serialisation. As the spec has it, decoding fails with a
  framing or parse error on a malformed buffer and encoding does not fail.
\<close>

record dotbot =
  GATEWAY_ADDRESS_DEFAULT :: string
  SWARM_ID_DEFAULT :: string
  PROTOCOL_VERSION :: int
  hdlc_decode :: "byte list \<Rightarrow> error + byte list"
  hdlc_encode :: "byte list \<Rightarrow> byte list"
  from_bytes :: "byte list \<Rightarrow> error + ProtocolPayload"
  to_bytes :: "ProtocolPayload \<Rightarrow> byte list"

subsection \<open>SailBotSim\<close>

record SailBotSim =
  address :: string
  latitude :: real
  longitude :: real
  wind_angle :: int
  direction :: int
  x :: real
  y :: real
  speed :: int
  ang_speed :: int
  rudder_slider :: int
  sail_slider :: int
  controller :: string

definition SailBotSim_init :: "string \<Rightarrow> SailBotSim" where
  "SailBotSim_init addr =
     (let lat = 48.832313; lon = 2.412689;
          (x0, y0) = convert_geographical_to_cartesian lat lon
      in \<lparr>address = addr, latitude = lat, longitude = lon, wind_angle = 0, direction = 0,
          x = x0, y = y0, speed = 0, ang_speed = 0, rudder_slider = 0, sail_slider = 0,
          controller = ''MANUAL''\<rparr>)"

text \<open>The \<open>header\<close> property: each of the three \<open>int(_, 16)\<close> can raise.\<close>

definition SailBotSim_header :: "dotbot \<Rightarrow> SailBotSim \<Rightarrow> error + ProtocolHeader" where
  "SailBotSim_header env self =
     (case int_base16 (GATEWAY_ADDRESS_DEFAULT env) of
        Inl e \<Rightarrow> Inl e
      | Inr d \<Rightarrow>
          (case int_base16 (address self) of
             Inl e \<Rightarrow> Inl e
           | Inr s \<Rightarrow>
               (case int_base16 (SWARM_ID_DEFAULT env) of
                  Inl e \<Rightarrow> Inl e
                | Inr w \<Rightarrow>
                    Inr \<lparr>destination = d, source = s, swarm_id = w, application = SailBot,
                         version = PROTOCOL_VERSION env\<rparr>)))"

definition state_space_model :: "SailBotSim \<Rightarrow> SailBotSim" where
  "state_space_model self =
     (let self = self\<lparr>x := x self + real_of_int (rudder_slider self)\<rparr>;
          self = self\<lparr>y := y self + real_of_int (sail_slider self)\<rparr>;
          (lat, lon) = convert_cartesian_to_geographical (x self) (y self);
          self = self\<lparr>latitude := lat, longitude := lon\<rparr>;
          self = self\<lparr>direction := (direction self + 10) mod 360\<rparr>
      in self\<lparr>wind_angle := (- direction self + true_wind_angle) mod 360\<rparr>)"

definition encode_serial_output :: "dotbot \<Rightarrow> SailBotSim \<Rightarrow> error + byte list" where
  "encode_serial_output env self =
     (case SailBotSim_header env self of
        Inl e \<Rightarrow> Inl e
      | Inr h \<Rightarrow>
          (let payload =
                 \<lparr>header = h, payload_type = SAILBOT_DATA,
                  payload_values =
                    SailBotData (direction self)
                      (int_of_float (latitude self * 1000000))
                      (int_of_float (longitude self * 1000000))
                      (wind_angle self)\<rparr>
           in Inr (hdlc_encode env (to_bytes env payload))))"

text \<open>
  \<open>update\<close> steps the model first and encodes afterwards, so a raise in the encoding
  leaves the stepped object behind: the result is the object and either the exception
  or the frame.
\<close>

definition update :: "dotbot \<Rightarrow> SailBotSim \<Rightarrow> SailBotSim \<times> (error + byte list)" where
  "update env self =
     (let self = (if controller self = ''MANUAL'' then state_space_model self else self)
      in (self, encode_serial_output env self))"

text \<open>The expression \<open>ProtocolPayload.from_bytes(hdlc_decode(frame))\<close>.\<close>

definition decode_payload :: "dotbot \<Rightarrow> byte list \<Rightarrow> error + ProtocolPayload" where
  "decode_payload env frame =
     (case hdlc_decode env frame of Inl e \<Rightarrow> Inl e | Inr bs \<Rightarrow> from_bytes env bs)"

text \<open>
  \<open>decode_serial_input\<close> returns the object and the exception raised, if any. The
  controller is assigned before the two attribute reads, as in the source.
\<close>

definition decode_serial_input :: "dotbot \<Rightarrow> SailBotSim \<Rightarrow> byte list \<Rightarrow> SailBotSim \<times> error option" where
  "decode_serial_input env self frame =
     (case decode_payload env frame of
        Inl e \<Rightarrow> (self, Some e)
      | Inr payload \<Rightarrow>
          if address self = drop 2 (hex (destination (header payload))) then
            if payload_type payload = CMD_MOVE_RAW then
              (let self = self\<lparr>controller := ''MANUAL''\<rparr>
               in case left_x (payload_values payload) of
                    Inl e \<Rightarrow> (self, Some e)
                  | Inr lx \<Rightarrow>
                      (let self = self\<lparr>rudder_slider := (if lx > 127 then lx - 256 else lx)\<rparr>
                       in case right_y (payload_values payload) of
                            Inl e \<Rightarrow> (self, Some e)
                          | Inr ry \<Rightarrow>
                              (self\<lparr>sail_slider := (if ry > 127 then ry - 256 else ry)\<rparr>,
                               None)))
            else (self, None)
          else (self, None))"

definition advertise :: "dotbot \<Rightarrow> SailBotSim \<Rightarrow> error + byte list" where
  "advertise env self =
     (case SailBotSim_header env self of
        Inl e \<Rightarrow> Inl e
      | Inr h \<Rightarrow>
          (let payload = \<lparr>header = h, payload_type = ADVERTISEMENT, payload_values = Advertisement\<rparr>
           in Inr (hdlc_encode env (to_bytes env payload))))"

subsection \<open>SailBotSimSerialInterface\<close>

text \<open>The constructor's fleet: one simulated SailBot.\<close>

definition SailBotSimSerialInterface_sailbots :: "SailBotSim list" where
  "SailBotSimSerialInterface_sailbots = [SailBotSim_init ''1234567890123456'']"

text \<open>
  \<open>write\<close>: the loop over the sailbots has no handler, so the first exception ends it
  and leaves the later sailbots unvisited.
\<close>

fun write_bytes :: "dotbot \<Rightarrow> SailBotSim list \<Rightarrow> byte list \<Rightarrow> SailBotSim list \<times> error option" where
  "write_bytes env [] bytes = ([], None)"
| "write_bytes env (sailbot # rest) bytes =
     (case decode_serial_input env sailbot bytes of
        (sailbot', Some e) \<Rightarrow> (sailbot' # rest, Some e)
      | (sailbot', None) \<Rightarrow>
          (case write_bytes env rest bytes of (rest', r) \<Rightarrow> (sailbot' # rest', r)))"

text \<open>
  The two loops of \<open>run\<close> over the sailbots. Each byte of a frame goes to the callback
  on its own and in order, so the callback's input is the concatenation of the frames.
\<close>

fun advertise_all :: "dotbot \<Rightarrow> SailBotSim list \<Rightarrow> byte list \<times> error option" where
  "advertise_all env [] = ([], None)"
| "advertise_all env (sailbot # rest) =
     (case advertise env sailbot of
        Inl e \<Rightarrow> ([], Some e)
      | Inr frame \<Rightarrow> (case advertise_all env rest of (out, r) \<Rightarrow> (frame @ out, r)))"

fun update_all :: "dotbot \<Rightarrow> SailBotSim list \<Rightarrow> SailBotSim list \<times> byte list \<times> error option" where
  "update_all env [] = ([], [], None)"
| "update_all env (sailbot # rest) =
     (case update env sailbot of
        (sailbot', Inl e) \<Rightarrow> (sailbot' # rest, [], Some e)
      | (sailbot', Inr frame) \<Rightarrow>
          (case update_all env rest of (rest', out, r) \<Rightarrow> (sailbot' # rest', frame @ out, r)))"

text \<open>
  The state of \<open>run\<close>'s loop: the sailbots, the local \<open>next_time\<close> and the bytes
  handed to the callback so far.
\<close>

record run_state =
  sailbots :: "SailBotSim list"
  next_time :: real
  callback_bytes :: "byte list"

text \<open>One iteration of \<open>while True\<close>, with \<open>current_time\<close> the clock reading it takes.\<close>

definition run_iteration :: "dotbot \<Rightarrow> real \<Rightarrow> run_state \<Rightarrow> run_state \<times> error option" where
  "run_iteration env current_time st =
     (if current_time \<ge> next_time st then
        (case update_all env (sailbots st) of
           (sailbots', out, Some e) \<Rightarrow>
             (st\<lparr>sailbots := sailbots', callback_bytes := callback_bytes st @ out\<rparr>, Some e)
         | (sailbots', out, None) \<Rightarrow>
             (st\<lparr>sailbots := sailbots', callback_bytes := callback_bytes st @ out,
                 next_time := current_time + delta_t\<rparr>, None))
      else (st, None))"

text \<open>
  The loop itself. \<open>time k\<close> is the k-th reading of \<open>time.time()\<close>. The loop has no
  exit: it ends only by an exception (\<open>Some\<close>, with the bytes sent), and \<open>None\<close> is
  a loop that never returns.
\<close>

partial_function (option) run_loop ::
  "dotbot \<Rightarrow> (nat \<Rightarrow> real) \<Rightarrow> nat \<Rightarrow> run_state \<Rightarrow> (byte list \<times> error) option" where
  "run_loop env time k st =
     (case run_iteration env (time k) st of
        (st', Some e) \<Rightarrow> Some (callback_bytes st', e)
      | (st', None) \<Rightarrow> run_loop env time (Suc k) st')"

definition run :: "dotbot \<Rightarrow> (nat \<Rightarrow> real) \<Rightarrow> SailBotSim list \<Rightarrow> (byte list \<times> error) option" where
  "run env time fleet =
     (case advertise_all env fleet of
        (out, Some e) \<Rightarrow> Some (out, e)
      | (out, None) \<Rightarrow>
          run_loop env time 1
            \<lparr>sailbots = fleet, next_time = time 0 + delta_t, callback_bytes = out\<rparr>)"

text \<open>
  The first \<open>n\<close> iterations of the loop, starting with the k-th clock reading: the
  state they leave and the exception that ended them, if one did.
\<close>

fun run_n :: "dotbot \<Rightarrow> (nat \<Rightarrow> real) \<Rightarrow> nat \<Rightarrow> nat \<Rightarrow> run_state \<Rightarrow> run_state \<times> error option" where
  "run_n env time k 0 st = (st, None)"
| "run_n env time k (Suc n) st =
     (case run_iteration env (time k) st of
        (st', Some e) \<Rightarrow> (st', Some e)
      | (st', None) \<Rightarrow> run_n env time (Suc k) n st')"

subsection \<open>Sequences of operations on one vehicle\<close>

datatype vehicle_op = StateSpaceModel | Update | DecodeSerialInput "byte list"

fun apply_op :: "dotbot \<Rightarrow> SailBotSim \<Rightarrow> vehicle_op \<Rightarrow> SailBotSim" where
  "apply_op env self StateSpaceModel = state_space_model self"
| "apply_op env self Update = fst (update env self)"
| "apply_op env self (DecodeSerialInput frame) = fst (decode_serial_input env self frame)"

subsection \<open>A concrete package for evaluation\<close>

text \<open>
  The properties below hold for every package. To evaluate the model on concrete
  buffers, \<open>example_env\<close> is a small stand-in for it: the framing is the identity
  and rejects the empty buffer, a payload of exactly two bytes is a move command
  (\<open>left_x\<close>, \<open>right_y\<close>) addressed to 0x1234567890123456, any other payload is a
  parse error, and telemetry is serialised as the bytes of its heading and wind angle.
\<close>

definition example_payload :: "int \<Rightarrow> int \<Rightarrow> ProtocolPayload" where
  "example_payload lx ry =
     \<lparr>header = \<lparr>destination = 1311768467284833366, source = 0, swarm_id = 0,
                application = SailBot, version = 1\<rparr>,
      payload_type = CMD_MOVE_RAW, payload_values = CommandMoveRaw lx ry\<rparr>"

definition example_env :: dotbot where
  "example_env =
     \<lparr>GATEWAY_ADDRESS_DEFAULT = ''0000000000000000'', SWARM_ID_DEFAULT = ''0000'',
      PROTOCOL_VERSION = 1,
      hdlc_decode = (\<lambda>frame. if frame = [] then Inl FrameDecodeError else Inr frame),
      hdlc_encode = (\<lambda>bs. bs),
      from_bytes = (\<lambda>bs. case bs of
                           [lx, ry] \<Rightarrow> Inr (example_payload (uint lx) (uint ry))
                         | _ \<Rightarrow> Inl FrameDecodeError),
      to_bytes = (\<lambda>payload. case payload_values payload of
                                SailBotData d la lo w \<Rightarrow> [word_of_int d, word_of_int w]
                              | _ \<Rightarrow> [])\<rparr>"

text \<open>The same package with its move commands addressed to destination 1.\<close>

definition example_env_one :: dotbot where
  "example_env_one =
     example_env
       \<lparr>from_bytes := (\<lambda>bs. case bs of
                           [lx, ry] \<Rightarrow>
                             Inr \<lparr>header = \<lparr>destination = 1, source = 0, swarm_id = 0,
                                              application = SailBot, version = 1\<rparr>,
                                  payload_type = CMD_MOVE_RAW,
                                  payload_values = CommandMoveRaw (uint lx) (uint ry)\<rparr>
                         | _ \<Rightarrow> Inl FrameDecodeError)\<rparr>"

subsection \<open>Predicates used in the proofs\<close>

text \<open>The \<open>header\<close> property of a vehicle evaluates without raising.\<close>

definition header_ok :: "dotbot \<Rightarrow> SailBotSim \<Rightarrow> bool" where
  "header_ok env self = (case SailBotSim_header env self of Inl e \<Rightarrow> False | Inr h \<Rightarrow> True)"

text \<open>Heading and wind angle are angles from 0 to 359.\<close>

definition angles_in_range :: "SailBotSim \<Rightarrow> bool" where
  "angles_in_range s =
     (0 \<le> direction s \<and> direction s < 360 \<and> 0 \<le> wind_angle s \<and> wind_angle s < 360)"

section \<open>Properties\<close>

lemma transform_constants_nonzero:
  "earth_radius_km \<noteq> 0" "cos_phi_0 \<noteq> 0"
  by (simp_all add: earth_radius_km_def cos_phi_0_def)

text \<open>
  C4. Over exact real arithmetic, converting a geographic pair to the local cartesian
  frame and back gives the original (latitude, longitude) pair, for every input.
\<close>

theorem geographical_cartesian_roundtrip:
  "(case convert_geographical_to_cartesian lat lon of
      (px, py) \<Rightarrow> convert_cartesian_to_geographical px py) = (lat, lon)"
  using transform_constants_nonzero
  by (simp add: convert_geographical_to_cartesian_def convert_cartesian_to_geographical_def
      Let_def)

subsection \<open>One tick\<close>

text \<open>
  C1. In a state whose controller is MANUAL, \<open>update\<close> runs \<open>state_space_model\<close>, and
  that step adds the rudder slider to x and the sail slider to y, recomputes latitude
  and longitude from the new (x, y) with \<open>convert_cartesian_to_geographical\<close>, sets
  the heading to (heading + 10) mod 360 and the wind angle to (true wind angle - new
  heading) mod 360, and changes no other field.
\<close>

theorem state_space_model_manual_tick:
  "controller self = ''MANUAL'' \<Longrightarrow>
   fst (update env self) = state_space_model self \<and>
   state_space_model self =
     self\<lparr>x := x self + real_of_int (rudder_slider self),
          y := y self + real_of_int (sail_slider self),
          latitude := fst (convert_cartesian_to_geographical
                            (x self + real_of_int (rudder_slider self))
                            (y self + real_of_int (sail_slider self))),
          longitude := snd (convert_cartesian_to_geographical
                            (x self + real_of_int (rudder_slider self))
                            (y self + real_of_int (sail_slider self))),
          direction := (direction self + 10) mod 360,
          wind_angle := (true_wind_angle - (direction self + 10) mod 360) mod 360\<rparr> \<and>
   wind_angle (state_space_model self) =
     (true_wind_angle - direction (state_space_model self)) mod 360"
  by (simp add: update_def state_space_model_def Let_def split_beta)

text \<open>
  C10. In a state whose controller is not MANUAL (and whose header can be built),
  \<open>update\<close> leaves the object as it is and still returns the framed telemetry of that
  unchanged state: heading, latitude and longitude times 1e6 truncated, wind angle.
\<close>

theorem update_not_manual:
  "controller self \<noteq> ''MANUAL'' \<Longrightarrow> SailBotSim_header env self = Inr h \<Longrightarrow>
   update env self =
     (self, Inr (hdlc_encode env (to_bytes env
        \<lparr>header = h, payload_type = SAILBOT_DATA,
         payload_values = SailBotData (direction self)
            (int_of_float (latitude self * 1000000))
            (int_of_float (longitude self * 1000000)) (wind_angle self)\<rparr>)))"
  by (simp add: update_def encode_serial_output_def)

lemma update_manual_fields:
  "controller s = ''MANUAL'' \<Longrightarrow>
   controller (fst (update env s)) = ''MANUAL'' \<and>
   rudder_slider (fst (update env s)) = rudder_slider s \<and>
   sail_slider (fst (update env s)) = sail_slider s \<and>
   x (fst (update env s)) = x s + real_of_int (rudder_slider s) \<and>
   y (fst (update env s)) = y s + real_of_int (sail_slider s) \<and>
   direction (fst (update env s)) = (direction s + 10) mod 360"
  by (simp add: update_def state_space_model_def Let_def split_beta)

lemma ticks_zero_sliders:
  "controller s = ''MANUAL'' \<Longrightarrow> rudder_slider s = 0 \<Longrightarrow> sail_slider s = 0 \<Longrightarrow>
   controller (((\<lambda>s. fst (update env s)) ^^ n) s) = ''MANUAL'' \<and>
   rudder_slider (((\<lambda>s. fst (update env s)) ^^ n) s) = 0 \<and>
   sail_slider (((\<lambda>s. fst (update env s)) ^^ n) s) = 0 \<and>
   x (((\<lambda>s. fst (update env s)) ^^ n) s) = x s \<and>
   y (((\<lambda>s. fst (update env s)) ^^ n) s) = y s \<and>
   direction (((\<lambda>s. fst (update env s)) ^^ n) s) =
     (if n = 0 then direction s else (direction s + 10 * int n) mod 360)"
proof (induction n)
  case 0
  then show ?case by simp
next
  case (Suc n)
  let ?sn = "((\<lambda>s. fst (update env s)) ^^ n) s"
  from Suc have c: "controller ?sn = ''MANUAL''" and r: "rudder_slider ?sn = 0"
    and sl: "sail_slider ?sn = 0" and px: "x ?sn = x s" and py: "y ?sn = y s"
    and d: "direction ?sn = (if n = 0 then direction s else (direction s + 10 * int n) mod 360)"
    by simp_all
  have m: "((direction s + 10 * int n) mod 360 + 10) mod 360 = (direction s + 10 * int n + 10) mod 360"
    by (simp add: mod_add_left_eq)
  from update_manual_fields [OF c, of env] r sl px py d m show ?case
    by (simp add: algebra_simps)
qed

text \<open>
  C8. From a MANUAL state with both sliders 0 and a heading from 0 to 359, 36 updates
  bring the heading back to its starting value and leave x and y unchanged.
\<close>

theorem thirty_six_ticks:
  "controller self = ''MANUAL'' \<Longrightarrow> rudder_slider self = 0 \<Longrightarrow> sail_slider self = 0 \<Longrightarrow>
   0 \<le> direction self \<Longrightarrow> direction self < 360 \<Longrightarrow>
   direction (((\<lambda>s. fst (update env s)) ^^ 36) self) = direction self \<and>
   x (((\<lambda>s. fst (update env s)) ^^ 36) self) = x self \<and>
   y (((\<lambda>s. fst (update env s)) ^^ 36) self) = y self"
  using ticks_zero_sliders [where s = self and env = env and n = 36] by simp

subsection \<open>Decoding a command\<close>

text \<open>
  The signed-byte rule, on the source's own address test. When the frame decodes to a
  move command whose destination, printed by \<open>hex\<close> without its prefix, equals the
  vehicle's address, the controller becomes MANUAL and \<open>left_x\<close> and \<open>right_y\<close>
  are stored as signed bytes in the rudder and sail sliders: a value above 127 as the
  value minus 256, any other value unchanged.
\<close>

theorem decode_move_raw:
  "decode_payload env frame = Inr payload \<Longrightarrow>
   address self = drop 2 (hex (destination (header payload))) \<Longrightarrow>
   payload_type payload = CMD_MOVE_RAW \<Longrightarrow>
   payload_values payload = CommandMoveRaw lx ry \<Longrightarrow>
   decode_serial_input env self frame =
     (self\<lparr>controller := ''MANUAL'',
           rudder_slider := (if lx > 127 then lx - 256 else lx),
           sail_slider := (if ry > 127 then ry - 256 else ry)\<rparr>, None)"
  by (simp add: decode_serial_input_def)

text \<open>
  C6. When the frame decodes and its destination is not the vehicle's address,
  \<open>decode_serial_input\<close> returns the object unchanged and raises nothing.
\<close>

theorem decode_other_destination:
  "decode_payload env frame = Inr payload \<Longrightarrow>
   address self \<noteq> drop 2 (hex (destination (header payload))) \<Longrightarrow>
   decode_serial_input env self frame = (self, None)"
  by (simp add: decode_serial_input_def)

text \<open>
  The source compares the address with the destination printed by \<open>hex\<close>. A
  destination that differs from the address as a number differs from it as a string
  too, so the theorem above covers both readings of "differs".
\<close>

lemma hex_value_hex_digit: "d < 16 \<Longrightarrow> hex_value (hex_digit d) = Some d"
proof -
  assume "d < 16"
  then have "d = 0 \<or> d = 1 \<or> d = 2 \<or> d = 3 \<or> d = 4 \<or> d = 5 \<or> d = 6 \<or> d = 7 \<or>
      d = 8 \<or> d = 9 \<or> d = 10 \<or> d = 11 \<or> d = 12 \<or> d = 13 \<or> d = 14 \<or> d = 15"
    by arith
  then show ?thesis
    by (elim disjE) (simp_all add: hex_digit_def hex_value_def)
qed

lemma int_digits16_append:
  "int_digits16 acc (xs @ ys) =
     (case int_digits16 acc xs of None \<Rightarrow> None | Some a \<Rightarrow> int_digits16 a ys)"
  by (induction xs arbitrary: acc) (simp_all split: option.splits)

lemma int_digits16_hex_digits: "int_digits16 0 (hex_digits n) = Some n"
proof (induction n rule: hex_digits.induct)
  case (1 n)
  show ?case
  proof (cases "n < 16")
    case True
    then show ?thesis
      by (subst hex_digits.simps) (simp add: hex_value_hex_digit)
  next
    case False
    with "1" have "int_digits16 0 (hex_digits (n div 16)) = Some (n div 16)" by simp
    with False show ?thesis
      by (subst hex_digits.simps) (simp add: int_digits16_append hex_value_hex_digit)
  qed
qed

lemma hex_digits_not_empty: "hex_digits n \<noteq> []"
  by (subst hex_digits.simps) simp

lemma int_base16_hex: "0 \<le> d \<Longrightarrow> int_base16 (drop 2 (hex d)) = Inr d"
  by (simp add: hex_def int_base16_def hex_digits_not_empty int_digits16_hex_digits)

lemma other_number_other_string:
  "0 \<le> d \<Longrightarrow> int_base16 addr \<noteq> Inr d \<Longrightarrow> addr \<noteq> drop 2 (hex d)"
  using int_base16_hex by blast

subsection \<open>Heading and wind angle stay angles\<close>

lemma state_space_model_angles: "angles_in_range (state_space_model s)"
  by (simp add: angles_in_range_def state_space_model_def Let_def split_beta)

lemma update_angles: "angles_in_range s \<Longrightarrow> angles_in_range (fst (update env s))"
  by (simp add: update_def Let_def state_space_model_angles)

lemma decode_serial_input_angles:
  "angles_in_range s \<Longrightarrow> angles_in_range (fst (decode_serial_input env s frame))"
  by (simp add: decode_serial_input_def Let_def angles_in_range_def split: sum.splits)

lemma apply_op_angles: "angles_in_range s \<Longrightarrow> angles_in_range (apply_op env s operation)"
  by (cases operation)
    (simp_all add: state_space_model_angles update_angles decode_serial_input_angles)

lemma foldl_apply_op_angles:
  "angles_in_range s \<Longrightarrow> angles_in_range (foldl (apply_op env) s ops)"
  by (induction ops arbitrary: s) (simp_all add: apply_op_angles)

lemma SailBotSim_init_angles: "angles_in_range (SailBotSim_init addr)"
  by (simp add: angles_in_range_def SailBotSim_init_def Let_def split_beta)

text \<open>
  C7. After any sequence of \<open>state_space_model\<close>, \<open>update\<close> and
  \<open>decode_serial_input\<close> calls on a freshly constructed vehicle, the heading and the
  wind angle are both at least 0 and below 360.
\<close>

theorem heading_wind_angle_in_range:
  "0 \<le> direction (foldl (apply_op env) (SailBotSim_init addr) ops) \<and>
   direction (foldl (apply_op env) (SailBotSim_init addr) ops) < 360 \<and>
   0 \<le> wind_angle (foldl (apply_op env) (SailBotSim_init addr) ops) \<and>
   wind_angle (foldl (apply_op env) (SailBotSim_init addr) ops) < 360"
  using foldl_apply_op_angles [OF SailBotSim_init_angles, of env addr ops]
  by (simp add: angles_in_range_def)

subsection \<open>Writing to the interface\<close>

lemma decode_serial_input_failure:
  "decode_payload env frame = Inl e \<Longrightarrow> decode_serial_input env s frame = (s, Some e)"
  by (simp add: decode_serial_input_def)

text \<open>
  C2, as the code has it. When the codec rejects the buffer, \<open>write\<close> does not handle
  the error: with at least one sailbot the error leaves \<open>write\<close> at the first of
  them, and no sailbot is changed.
\<close>

theorem write_decode_failure_propagates:
  "decode_payload env frame = Inl e \<Longrightarrow>
   write_bytes env fleet frame = (fleet, if fleet = [] then None else Some e)"
  by (cases fleet) (simp_all add: decode_serial_input_failure)

subsection \<open>The scheduling loop\<close>

text \<open>
  C3, as the code has it. An iteration that reads a time at or past \<open>next_time\<close> and
  completes its pass sets \<open>next_time\<close> to the time it read plus \<open>delta_t\<close>.
\<close>

theorem run_iteration_reschedules_from_now:
  "current_time \<ge> next_time st \<Longrightarrow> snd (run_iteration env current_time st) = None \<Longrightarrow>
   next_time (fst (run_iteration env current_time st)) = current_time + delta_t"
  by (auto simp: run_iteration_def split: prod.splits option.splits)

lemma header_address:
  "address s' = address s \<Longrightarrow> SailBotSim_header env s' = SailBotSim_header env s"
  by (simp add: SailBotSim_header_def cong: sum.case_cong)

lemma state_space_model_address [simp]: "address (state_space_model s) = address s"
  by (simp add: state_space_model_def Let_def split_beta)

lemma update_address [simp]: "address (fst (update env s)) = address s"
  by (simp add: update_def Let_def)

lemma decode_serial_input_address [simp]:
  "address (fst (decode_serial_input env s frame)) = address s"
  by (simp add: decode_serial_input_def Let_def split: sum.splits)

lemma update_header_ok:
  "header_ok env s \<Longrightarrow> \<exists>s' frame. update env s = (s', Inr frame) \<and> address s' = address s"
  by (auto simp: header_ok_def update_def Let_def encode_serial_output_def
      header_address [of "state_space_model s" s] split: sum.splits)

lemma update_all_ok:
  "list_all (header_ok env) fleet \<Longrightarrow>
   \<exists>fleet' out. update_all env fleet = (fleet', out, None) \<and> list_all (header_ok env) fleet'"
proof (induction fleet)
  case Nil
  then show ?case by simp
next
  case (Cons s fleet)
  from Cons.prems have "header_ok env s" and "list_all (header_ok env) fleet" by simp_all
  from update_header_ok [OF this(1)] obtain s' frame
    where u: "update env s = (s', Inr frame)" and a: "address s' = address s" by blast
  from Cons.IH [OF \<open>list_all (header_ok env) fleet\<close>] obtain fleet' out
    where r: "update_all env fleet = (fleet', out, None)" and ok: "list_all (header_ok env) fleet'"
    by blast
  have "header_ok env s'"
    using \<open>header_ok env s\<close> header_address [OF a, of env] by (simp add: header_ok_def)
  with u r ok show ?case by simp
qed

lemma run_iteration_ok:
  "list_all (header_ok env) (sailbots st) \<Longrightarrow>
   \<exists>st'. run_iteration env t st = (st', None) \<and> list_all (header_ok env) (sailbots st')"
  using update_all_ok [of env "sailbots st"]
  by (auto simp: run_iteration_def)

lemma advertise_all_ok:
  "advertise_all env fleet = (out, None) \<Longrightarrow> list_all (header_ok env) fleet"
proof (induction fleet arbitrary: out)
  case Nil
  then show ?case by simp
next
  case (Cons s fleet)
  then show ?case
    by (auto simp: advertise_def header_ok_def split: sum.splits prod.splits)
qed

text \<open>
  The serialisation is a total function of the model, so a raise inside it (a telemetry
  value outside its field) is not modelled. The loop is therefore characterised by what
  its iterations do, whatever makes one raise: it ends exactly when an iteration raises.
\<close>

lemma run_n_raise_ends_loop:
  "snd (run_n env time k n st) = Some e \<Longrightarrow>
   run_loop env time k st = Some (callback_bytes (fst (run_n env time k n st)), e)"
proof (induction n arbitrary: k st)
  case 0
  then show ?case by simp
next
  case (Suc n)
  obtain st' r where it: "run_iteration env (time k) st = (st', r)"
    by (cases "run_iteration env (time k) st") auto
  show ?case
  proof (cases r)
    case None
    with it Suc.prems have "snd (run_n env time (Suc k) n st') = Some e" by simp
    from Suc.IH [OF this] it None show ?thesis
      by (subst run_loop.simps) simp
  next
    case (Some e')
    with it Suc.prems show ?thesis
      by (subst run_loop.simps) simp
  qed
qed

lemma run_loop_ends_by_raise:
  assumes "run_loop env time k st = Some r"
  shows "\<exists>n. run_n env time k n st = (fst (run_n env time k n st), Some (snd r)) \<and>
             callback_bytes (fst (run_n env time k n st)) = fst r"
proof (rule run_loop.raw_induct
    [where P = "\<lambda>env time k st r.
        \<exists>n. run_n env time k n st = (fst (run_n env time k n st), Some (snd r)) \<and>
             callback_bytes (fst (run_n env time k n st)) = fst r", OF _ assms])
  fix f env time k st r
  assume IH: "\<And>env time k st r. f env time k st = Some r \<Longrightarrow>
      \<exists>n. run_n env time k n st = (fst (run_n env time k n st), Some (snd r)) \<and>
           callback_bytes (fst (run_n env time k n st)) = fst r"
    and step: "(case run_iteration env (time k) st of
                  (st', None) \<Rightarrow> f env time (Suc k) st'
                | (st', Some e) \<Rightarrow> Some (callback_bytes st', e)) = Some r"
  obtain st' r' where it: "run_iteration env (time k) st = (st', r')"
    by (cases "run_iteration env (time k) st") auto
  show "\<exists>n. run_n env time k n st = (fst (run_n env time k n st), Some (snd r)) \<and>
           callback_bytes (fst (run_n env time k n st)) = fst r"
  proof (cases r')
    case None
    with step it have "f env time (Suc k) st' = Some r" by simp
    from IH [OF this] obtain n where
      n: "run_n env time (Suc k) n st' = (fst (run_n env time (Suc k) n st'), Some (snd r))"
        "callback_bytes (fst (run_n env time (Suc k) n st')) = fst r" by blast
    from n it None have "run_n env time k (Suc n) st = (fst (run_n env time k (Suc n) st), Some (snd r)) \<and>
        callback_bytes (fst (run_n env time k (Suc n) st)) = fst r" by simp
    then show ?thesis by blast
  next
    case (Some e)
    with step it have "r = (callback_bytes st', e)" by simp
    with it Some have "run_n env time k (Suc 0) st = (fst (run_n env time k (Suc 0) st), Some (snd r)) \<and>
        callback_bytes (fst (run_n env time k (Suc 0) st)) = fst r" by simp
    then show ?thesis by blast
  qed
qed

lemma run_loop_None_iff:
  "(run_loop env time k st = None) = (\<forall>n. snd (run_n env time k n st) = None)"
proof
  assume none: "run_loop env time k st = None"
  show "\<forall>n. snd (run_n env time k n st) = None"
  proof
    fix n
    show "snd (run_n env time k n st) = None"
    proof (cases "snd (run_n env time k n st)")
      case None
      then show ?thesis .
    next
      case (Some e)
      from run_n_raise_ends_loop [OF this] none show ?thesis by simp
    qed
  qed
next
  assume all: "\<forall>n. snd (run_n env time k n st) = None"
  show "run_loop env time k st = None"
  proof (cases "run_loop env time k st")
    case None
    then show ?thesis .
  next
    case (Some r)
    from run_loop_ends_by_raise [OF this] obtain n
      where "run_n env time k n st = (fst (run_n env time k n st), Some (snd r))" by blast
    then have "snd (run_n env time k n st) = Some (snd r)" by (metis snd_conv)
    with all show ?thesis by simp
  qed
qed

lemma update_all_completed:
  "update_all env fleet = (fleet', out, None) \<Longrightarrow> fleet' = map (\<lambda>s. fst (update env s)) fleet"
proof (induction fleet arbitrary: fleet' out)
  case Nil
  then show ?case by simp
next
  case (Cons s fleet)
  obtain s' r where u: "update env s = (s', r)" by (cases "update env s") auto
  obtain rest' out' r' where a: "update_all env fleet = (rest', out', r')"
    by (cases "update_all env fleet") auto
  from Cons.prems u a obtain frame where "r = Inr frame" and "r' = None" and "fleet' = s' # rest'"
    by (cases r) auto
  with Cons.IH [of rest' out'] a u show ?case by simp
qed

lemma run_iteration_completed:
  "next_time st \<le> current_time \<Longrightarrow> snd (run_iteration env current_time st) = None \<Longrightarrow>
   sailbots (fst (run_iteration env current_time st)) =
     map (\<lambda>s. fst (update env s)) (sailbots st)"
proof -
  assume due: "next_time st \<le> current_time"
    and none: "snd (run_iteration env current_time st) = None"
  obtain fleet' out r where a: "update_all env (sailbots st) = (fleet', out, r)"
    by (cases "update_all env (sailbots st)") auto
  with due none have "r = None" by (cases r) (simp_all add: run_iteration_def)
  with a update_all_completed [of env "sailbots st" fleet' out] due show ?thesis
    by (simp add: run_iteration_def)
qed

lemma run_n_ok:
  "list_all (header_ok env) (sailbots st) \<Longrightarrow> snd (run_n env time k n st) = None"
proof (induction n arbitrary: k st)
  case 0
  then show ?case by simp
next
  case (Suc n)
  from run_iteration_ok [OF Suc.prems, of "time k"] obtain st'
    where it: "run_iteration env (time k) st = (st', None)"
      and ok': "list_all (header_ok env) (sailbots st')" by blast
  from Suc.IH [OF ok'] it show ?case by simp
qed


text \<open>
  C9, as the code has it. The class has no stop operation and the loop has no exit.
  From any state, so also from the one any \<open>write\<close> leaves, the loop never returns
  exactly when none of its iterations raises, and it ends with an exception exactly
  when one of them raises it; an iteration that reads a time at or past \<open>next_time\<close>
  and raises nothing has updated every sailbot.
\<close>

theorem run_loop_has_no_exit:
  "(run_loop env time k st = None) = (\<forall>n. snd (run_n env time k n st) = None) \<and>
   (\<exists>out. run_loop env time k st = Some (out, e)) = (\<exists>n. snd (run_n env time k n st) = Some e) \<and>
   (next_time st \<le> current_time \<longrightarrow> snd (run_iteration env current_time st) = None \<longrightarrow>
      sailbots (fst (run_iteration env current_time st)) =
        map (\<lambda>s. fst (update env s)) (sailbots st))"
proof -
  have "(\<exists>out. run_loop env time k st = Some (out, e)) = (\<exists>n. snd (run_n env time k n st) = Some e)"
  proof
    assume "\<exists>out. run_loop env time k st = Some (out, e)"
    then obtain out where "run_loop env time k st = Some (out, e)" ..
    from run_loop_ends_by_raise [OF this] obtain n
      where "run_n env time k n st = (fst (run_n env time k n st), Some e)" by auto
    then have "snd (run_n env time k n st) = Some e" by (metis snd_conv)
    then show "\<exists>n. snd (run_n env time k n st) = Some e" ..
  next
    assume "\<exists>n. snd (run_n env time k n st) = Some e"
    then obtain n where "snd (run_n env time k n st) = Some e" ..
    from run_n_raise_ends_loop [OF this] show "\<exists>out. run_loop env time k st = Some (out, e)" ..
  qed
  with run_loop_None_iff [of env time k st] run_iteration_completed [of st current_time env]
  show ?thesis by blast
qed

section \<open>Concrete instances\<close>

lemma int_base16_vehicle: "int_base16 ''1234567890123456'' = Inr 1311768467284833366"
  by (simp add: int_base16_def hex_value_def)

lemma int_base16_zero16: "int_base16 ''0000000000000000'' = Inr 0"
  by (simp add: int_base16_def hex_value_def)

lemma int_base16_zero4: "int_base16 ''0000'' = Inr 0"
  by (simp add: int_base16_def hex_value_def)

lemma hex_vehicle: "drop 2 (hex 1311768467284833366) = ''1234567890123456''"
  by (simp add: hex_def hex_digits.simps hex_digit_def)

lemma init_fields:
  "address (SailBotSim_init a) = a" "controller (SailBotSim_init a) = ''MANUAL''"
  "direction (SailBotSim_init a) = 0" "wind_angle (SailBotSim_init a) = 0"
  "rudder_slider (SailBotSim_init a) = 0" "sail_slider (SailBotSim_init a) = 0"
  by (simp_all add: SailBotSim_init_def Let_def split_beta)


lemma init_header:
  "SailBotSim_header example_env (SailBotSim_init ''1234567890123456'') =
     Inr \<lparr>destination = 0, source = 1311768467284833366, swarm_id = 0,
          application = SailBot, version = 1\<rparr>"
  by (simp add: SailBotSim_header_def example_env_def int_base16_vehicle int_base16_zero16
      int_base16_zero4 init_fields)

lemma example_decode_move:
  "decode_payload example_env [200, 50] = Inr (example_payload 200 50)"
  by (simp add: decode_payload_def example_env_def)

lemma example_decode_empty: "decode_payload example_env [] = Inl FrameDecodeError"
  by (simp add: decode_payload_def example_env_def)

text \<open>The first tick of a fresh vehicle: heading 10, wind angle 20, x unchanged.\<close>

theorem state_space_model_manual_tick_witness:
  "controller (SailBotSim_init ''1234567890123456'') = ''MANUAL'' \<and>
   fst (update example_env (SailBotSim_init ''1234567890123456'')) =
     state_space_model (SailBotSim_init ''1234567890123456'') \<and>
   direction (state_space_model (SailBotSim_init ''1234567890123456'')) = 10 \<and>
   wind_angle (state_space_model (SailBotSim_init ''1234567890123456'')) = 20 \<and>
   x (state_space_model (SailBotSim_init ''1234567890123456'')) =
     x (SailBotSim_init ''1234567890123456'')"
proof -
  have c: "controller (SailBotSim_init ''1234567890123456'') = ''MANUAL''"
    by (simp add: init_fields)
  from state_space_model_manual_tick [OF c, of example_env] c show ?thesis
    by (simp add: init_fields true_wind_angle_def)
qed

text \<open>A vehicle put in another mode keeps its state and still sends telemetry.\<close>

theorem update_not_manual_witness:
  "controller ((SailBotSim_init ''1234567890123456'')\<lparr>controller := ''AUTO''\<rparr>) \<noteq> ''MANUAL'' \<and>
   SailBotSim_header example_env ((SailBotSim_init ''1234567890123456'')\<lparr>controller := ''AUTO''\<rparr>) =
     Inr \<lparr>destination = 0, source = 1311768467284833366, swarm_id = 0,
          application = SailBot, version = 1\<rparr> \<and>
   update example_env ((SailBotSim_init ''1234567890123456'')\<lparr>controller := ''AUTO''\<rparr>) =
     ((SailBotSim_init ''1234567890123456'')\<lparr>controller := ''AUTO''\<rparr>, Inr [0, 0])"
proof -
  let ?s = "(SailBotSim_init ''1234567890123456'')\<lparr>controller := ''AUTO''\<rparr>"
  have c: "controller ?s \<noteq> ''MANUAL''" by simp
  have h: "SailBotSim_header example_env ?s =
     Inr \<lparr>destination = 0, source = 1311768467284833366, swarm_id = 0,
          application = SailBot, version = 1\<rparr>"
    using header_address [of ?s "SailBotSim_init ''1234567890123456''" example_env] init_header
    by simp
  from update_not_manual [OF c h] c h show ?thesis
    by (simp add: example_env_def init_fields)
qed

text \<open>Thirty-six updates of a fresh vehicle.\<close>

theorem thirty_six_ticks_witness:
  "controller (SailBotSim_init ''1234567890123456'') = ''MANUAL'' \<and>
   rudder_slider (SailBotSim_init ''1234567890123456'') = 0 \<and>
   sail_slider (SailBotSim_init ''1234567890123456'') = 0 \<and>
   0 \<le> direction (SailBotSim_init ''1234567890123456'') \<and>
   direction (SailBotSim_init ''1234567890123456'') < 360 \<and>
   direction (((\<lambda>s. fst (update example_env s)) ^^ 36) (SailBotSim_init ''1234567890123456'')) = 0 \<and>
   x (((\<lambda>s. fst (update example_env s)) ^^ 36) (SailBotSim_init ''1234567890123456'')) =
     x (SailBotSim_init ''1234567890123456'') \<and>
   y (((\<lambda>s. fst (update example_env s)) ^^ 36) (SailBotSim_init ''1234567890123456'')) =
     y (SailBotSim_init ''1234567890123456'')"
  using thirty_six_ticks [of "SailBotSim_init ''1234567890123456''" example_env]
  by (simp add: init_fields)

text \<open>The move command (200, 50) addressed to the vehicle: rudder -56, sail 50.\<close>

theorem decode_move_raw_witness:
  "decode_payload example_env [200, 50] = Inr (example_payload 200 50) \<and>
   address (SailBotSim_init ''1234567890123456'') =
     drop 2 (hex (destination (header (example_payload 200 50)))) \<and>
   payload_type (example_payload 200 50) = CMD_MOVE_RAW \<and>
   payload_values (example_payload 200 50) = CommandMoveRaw 200 50 \<and>
   decode_serial_input example_env (SailBotSim_init ''1234567890123456'') [200, 50] =
     ((SailBotSim_init ''1234567890123456'')
        \<lparr>controller := ''MANUAL'', rudder_slider := - 56, sail_slider := 50\<rparr>, None)"
proof -
  have a: "address (SailBotSim_init ''1234567890123456'') =
     drop 2 (hex (destination (header (example_payload 200 50))))"
    by (simp add: init_fields example_payload_def hex_vehicle)
  have t: "payload_type (example_payload 200 50) = CMD_MOVE_RAW"
    and v: "payload_values (example_payload 200 50) = CommandMoveRaw 200 50"
    by (simp_all add: example_payload_def)
  from decode_move_raw [OF example_decode_move a t v] example_decode_move a t v
  show ?thesis by simp
qed

text \<open>The same command seen by a vehicle with another address.\<close>

theorem decode_other_destination_witness:
  "decode_payload example_env [200, 50] = Inr (example_payload 200 50) \<and>
   address (SailBotSim_init ''0000000000000001'') \<noteq>
     drop 2 (hex (destination (header (example_payload 200 50)))) \<and>
   decode_serial_input example_env (SailBotSim_init ''0000000000000001'') [200, 50] =
     (SailBotSim_init ''0000000000000001'', None)"
proof -
  have a: "address (SailBotSim_init ''0000000000000001'') \<noteq>
     drop 2 (hex (destination (header (example_payload 200 50))))"
    by (simp add: init_fields example_payload_def hex_vehicle)
  from decode_other_destination [OF example_decode_move a] example_decode_move a
  show ?thesis by simp
qed

text \<open>The empty buffer written to the constructed interface.\<close>

theorem write_decode_failure_propagates_witness:
  "decode_payload example_env [] = Inl FrameDecodeError \<and>
   write_bytes example_env SailBotSimSerialInterface_sailbots [] =
     (SailBotSimSerialInterface_sailbots, Some FrameDecodeError)"
  using write_decode_failure_propagates
    [OF example_decode_empty, of SailBotSimSerialInterface_sailbots] example_decode_empty
  by (simp add: SailBotSimSerialInterface_sailbots_def)

text \<open>C2 as stated fails: writing the empty buffer raises the decode error out of \<open>write\<close>.\<close>

theorem write_raises_counterexample:
  "snd (write_bytes example_env SailBotSimSerialInterface_sailbots []) = Some FrameDecodeError"
  by (simp add: SailBotSimSerialInterface_sailbots_def decode_serial_input_failure
      example_decode_empty)

lemma example_update_all:
  "update_all example_env SailBotSimSerialInterface_sailbots =
     ([state_space_model (SailBotSim_init ''1234567890123456'')], [10, 20], None)"
proof -
  have "SailBotSim_header example_env (state_space_model (SailBotSim_init ''1234567890123456'')) =
     Inr \<lparr>destination = 0, source = 1311768467284833366, swarm_id = 0,
          application = SailBot, version = 1\<rparr>"
    using header_address [of "state_space_model (SailBotSim_init ''1234567890123456'')"
        "SailBotSim_init ''1234567890123456''" example_env] init_header
    by simp
  moreover have "direction (state_space_model (SailBotSim_init ''1234567890123456'')) = 10"
    and "wind_angle (state_space_model (SailBotSim_init ''1234567890123456'')) = 20"
    by (simp_all add: state_space_model_def Let_def split_beta init_fields true_wind_angle_def)
  ultimately show ?thesis
    by (simp add: SailBotSimSerialInterface_sailbots_def update_def init_fields
        encode_serial_output_def example_env_def)
qed

text \<open>C3 as stated fails: due at 1 and read at 2, the next due time is 2.5, not 1.5.\<close>

theorem reschedule_fixed_phase_counterexample:
  "next_time (fst (run_iteration example_env 2
     \<lparr>sailbots = SailBotSimSerialInterface_sailbots, next_time = 1, callback_bytes = []\<rparr>)) = 5 / 2 \<and>
   next_time (fst (run_iteration example_env 2
     \<lparr>sailbots = SailBotSimSerialInterface_sailbots, next_time = 1, callback_bytes = []\<rparr>))
     \<noteq> 1 + delta_t"
  by (simp add: run_iteration_def example_update_all delta_t_def)

text \<open>The same iteration, as the code reschedules it.\<close>

theorem run_iteration_reschedules_from_now_witness:
  "(2::real) \<ge> next_time \<lparr>sailbots = SailBotSimSerialInterface_sailbots, next_time = 1,
       callback_bytes = []\<rparr> \<and>
   snd (run_iteration example_env 2
     \<lparr>sailbots = SailBotSimSerialInterface_sailbots, next_time = 1, callback_bytes = []\<rparr>) = None \<and>
   next_time (fst (run_iteration example_env 2
     \<lparr>sailbots = SailBotSimSerialInterface_sailbots, next_time = 1, callback_bytes = []\<rparr>)) =
     2 + delta_t"
proof -
  let ?st = "\<lparr>sailbots = SailBotSimSerialInterface_sailbots, next_time = 1, callback_bytes = []\<rparr>"
  have d: "(2::real) \<ge> next_time ?st" by simp
  have n: "snd (run_iteration example_env 2 ?st) = None"
    by (simp add: run_iteration_def example_update_all)
  from run_iteration_reschedules_from_now [OF d n] d n show ?thesis by simp
qed

lemma example_advertise_all:
  "advertise_all example_env SailBotSimSerialInterface_sailbots = ([], None)"
  by (simp add: SailBotSimSerialInterface_sailbots_def advertise_def init_header)
    (simp add: example_env_def)

text \<open>
  The constructed interface, never written to, on a clock that advances a quarter second
  per reading: no iteration raises, the loop never returns, and the iteration due at 1
  updates the sailbot.
\<close>

theorem run_loop_has_no_exit_witness:
  "(\<forall>n. snd (run_n example_env (\<lambda>k. real k / 4) 1 n
      \<lparr>sailbots = SailBotSimSerialInterface_sailbots, next_time = 1 / 2, callback_bytes = []\<rparr>) = None) \<and>
   run_loop example_env (\<lambda>k. real k / 4) 1
      \<lparr>sailbots = SailBotSimSerialInterface_sailbots, next_time = 1 / 2, callback_bytes = []\<rparr> = None \<and>
   next_time \<lparr>sailbots = SailBotSimSerialInterface_sailbots, next_time = 1 / 2, callback_bytes = []\<rparr>
      \<le> (1::real) \<and>
   snd (run_iteration example_env 1
      \<lparr>sailbots = SailBotSimSerialInterface_sailbots, next_time = 1 / 2, callback_bytes = []\<rparr>) = None \<and>
   sailbots (fst (run_iteration example_env 1
      \<lparr>sailbots = SailBotSimSerialInterface_sailbots, next_time = 1 / 2, callback_bytes = []\<rparr>)) =
     map (\<lambda>s. fst (update example_env s)) SailBotSimSerialInterface_sailbots"
proof -
  let ?st = "\<lparr>sailbots = SailBotSimSerialInterface_sailbots, next_time = 1 / 2, callback_bytes = []\<rparr>"
  have ok: "list_all (header_ok example_env) (sailbots ?st)"
    using advertise_all_ok [OF example_advertise_all] by simp
  have all: "\<forall>n. snd (run_n example_env (\<lambda>k. real k / 4) 1 n ?st) = None"
    using run_n_ok [OF ok] by blast
  have due: "next_time ?st \<le> (1::real)" by simp
  have none: "snd (run_iteration example_env 1 ?st) = None"
    by (simp add: run_iteration_def example_update_all)
  from run_loop_has_no_exit [of example_env "\<lambda>k. real k / 4" 1 ?st ValueError 1] all due none
  show ?thesis by simp
qed

lemma write_bytes_single:
  "fst (write_bytes env [s] frame) = [fst (decode_serial_input env s frame)]"
  by (cases "decode_serial_input env s frame") (auto split: option.splits)

lemma decode_serial_input_keeps:
  "direction (fst (decode_serial_input env s frame)) = direction s"
  "controller s = ''MANUAL'' \<Longrightarrow> controller (fst (decode_serial_input env s frame)) = ''MANUAL''"
  by (simp_all add: decode_serial_input_def Let_def split: sum.splits)

lemma example_tick_after_any_write:
  "callback_bytes (fst (run_iteration example_env 1
     \<lparr>sailbots = fst (write_bytes example_env SailBotSimSerialInterface_sailbots frame),
      next_time = 1 / 2, callback_bytes = []\<rparr>)) = [10, 20]"
proof -
  let ?s = "fst (decode_serial_input example_env (SailBotSim_init ''1234567890123456'') frame)"
  have a: "address (state_space_model ?s) = address (SailBotSim_init ''1234567890123456'')"
    by simp
  have h: "SailBotSim_header example_env (state_space_model ?s) =
     Inr \<lparr>destination = 0, source = 1311768467284833366, swarm_id = 0,
          application = SailBot, version = 1\<rparr>"
    using header_address [OF a, of example_env] init_header by simp
  have c: "controller ?s = ''MANUAL''" and d0: "direction ?s = 0"
    by (simp_all add: decode_serial_input_keeps init_fields)
  have d: "direction (state_space_model ?s) = 10" "wind_angle (state_space_model ?s) = 20"
    using d0 by (simp_all add: state_space_model_def Let_def split_beta true_wind_angle_def)
  have "update example_env ?s = (state_space_model ?s, Inr [10, 20])"
    using h d c by (simp add: update_def encode_serial_output_def example_env_def)
  moreover have "fst (write_bytes example_env SailBotSimSerialInterface_sailbots frame) = [?s]"
    unfolding SailBotSimSerialInterface_sailbots_def by (rule write_bytes_single)
  ultimately show ?thesis
    by (simp add: run_iteration_def)
qed

text \<open>
  C9 as stated fails: whatever buffer is written to the constructed interface, the next
  due iteration still sends telemetry (heading 10, wind angle 20), so no operation of
  the class stops the passes.
\<close>

theorem no_stop_operation_counterexample:
  "\<not> (\<exists>frame. callback_bytes (fst (run_iteration example_env 1
          \<lparr>sailbots = fst (write_bytes example_env SailBotSimSerialInterface_sailbots frame),
           next_time = 1 / 2, callback_bytes = []\<rparr>)) = []) \<and>
   callback_bytes (fst (run_iteration example_env 1
     \<lparr>sailbots = fst (write_bytes example_env SailBotSimSerialInterface_sailbots [200, 50]),
      next_time = 1 / 2, callback_bytes = []\<rparr>)) = [10, 20]"
  by (simp add: example_tick_after_any_write)

lemma int_base16_one: "int_base16 ''0000000000000001'' = Inr 1"
  by (simp add: int_base16_def hex_value_def)

text \<open>
  C5 fails on the code where the address equals the destination as a number only. The
  vehicle 0000000000000001 announces itself as source 1, yet the move command (200, 50)
  for destination 1 is ignored: the source compares the address with the text of
  \<open>hex(1)\<close>, and the sliders stay 0 where the claim has -56 and 50.
\<close>

theorem numeric_match_ignored:
  "SailBotSim_header example_env_one (SailBotSim_init ''0000000000000001'') =
     Inr \<lparr>destination = 0, source = 1, swarm_id = 0, application = SailBot, version = 1\<rparr> \<and>
   decode_payload example_env_one [200, 50] =
     Inr \<lparr>header = \<lparr>destination = 1, source = 0, swarm_id = 0, application = SailBot,
                     version = 1\<rparr>,
          payload_type = CMD_MOVE_RAW, payload_values = CommandMoveRaw 200 50\<rparr> \<and>
   decode_serial_input example_env_one (SailBotSim_init ''0000000000000001'') [200, 50] =
     (SailBotSim_init ''0000000000000001'', None) \<and>
   rudder_slider (SailBotSim_init ''0000000000000001'') = 0 \<and>
   sail_slider (SailBotSim_init ''0000000000000001'') = 0"
proof -
  have h: "SailBotSim_header example_env_one (SailBotSim_init ''0000000000000001'') =
     Inr \<lparr>destination = 0, source = 1, swarm_id = 0, application = SailBot, version = 1\<rparr>"
    by (simp add: SailBotSim_header_def example_env_one_def example_env_def int_base16_one
        int_base16_zero16 int_base16_zero4 init_fields)
  have p: "decode_payload example_env_one [200, 50] =
     Inr \<lparr>header = \<lparr>destination = 1, source = 0, swarm_id = 0, application = SailBot,
                     version = 1\<rparr>,
          payload_type = CMD_MOVE_RAW, payload_values = CommandMoveRaw 200 50\<rparr>"
    by (simp add: decode_payload_def example_env_one_def example_env_def)
  have x: "drop 2 (hex 1) = ''1''"
    by (simp add: hex_def hex_digits.simps hex_digit_def)
  have "decode_serial_input example_env_one (SailBotSim_init ''0000000000000001'') [200, 50] =
     (SailBotSim_init ''0000000000000001'', None)"
    by (simp add: decode_serial_input_def p x init_fields)
  with h p show ?thesis by (simp add: init_fields)
qed

end
